theory Spec2Isabelle
  imports Main
begin

section \<open>Go values: bytes, run-time panics, slices\<close>

text \<open>
  A Go \<open>[]byte\<close> and a Go \<open>string\<close> are both modelled as \<open>string\<close> (a list of 8-bit
  characters). Go's \<open>int\<close> is modelled as \<open>int\<close>; offsets into the data and lengths never
  leave the 64-bit range, and the arithmetic on the numbers read from the input
  (\<open>ContentLength\<close>, \<open>chunked_length\<close>) is wrapped with \<open>int64\<close>.
  A run-time panic (slice or index out of range) is the value \<open>Inl Panic\<close>; a loop that
  never exits is \<open>Inl Hang\<close>.
\<close>

datatype fault = Panic | Hang

definition CR :: char where "CR = CHR 0x0D"
definition LF :: char where "LF = CHR 0x0A"
definition HT :: char where "HT = CHR 0x09"
definition SP :: char where "SP = CHR '' ''"
definition CRLF :: string where "CRLF = [CR, LF]"

definition len :: "'a list \<Rightarrow> int" where
  "len xs = int (length xs)"

text \<open>\<open>xs[lo:hi]\<close>; the capacity of a slice is taken to be its length.\<close>

definition slice :: "'a list \<Rightarrow> int \<Rightarrow> int \<Rightarrow> fault + 'a list" where
  "slice xs lo hi =
     (if 0 \<le> lo \<and> lo \<le> hi \<and> hi \<le> len xs
      then Inr (take (nat (hi - lo)) (drop (nat lo) xs)) else Inl Panic)"

text \<open>\<open>xs[lo:]\<close>\<close>

definition slice_from :: "'a list \<Rightarrow> int \<Rightarrow> fault + 'a list" where
  "slice_from xs lo = slice xs lo (len xs)"

text \<open>\<open>xs[i]\<close>\<close>

definition at :: "'a list \<Rightarrow> int \<Rightarrow> fault + 'a" where
  "at xs i = (if 0 \<le> i \<and> i < len xs then Inr (xs ! nat i) else Inl Panic)"

definition int64 :: "int \<Rightarrow> int" where
  "int64 x = (x + 2 ^ 63) mod 2 ^ 64 - 2 ^ 63"

section \<open>The Go library functions the parser calls\<close>

text \<open>\<open>bytes.Index(s, sep)\<close>: the index of the first instance of \<open>sep\<close>, or \<open>-1\<close>.\<close>

fun Index :: "string \<Rightarrow> string \<Rightarrow> int" where
  "Index [] sep = (if sep = [] then 0 else - 1)"
| "Index (c # cs) sep =
     (if take (length sep) (c # cs) = sep then 0
      else (let r = Index cs sep in if r < 0 then - 1 else r + 1))"

text \<open>\<open>bytes.LastIndex(s, sep)\<close>\<close>

definition LastIndex :: "string \<Rightarrow> string \<Rightarrow> int" where
  "LastIndex s sep =
     (let r = Index (rev s) (rev sep) in if r < 0 then - 1 else len s - r - len sep)"

text \<open>\<open>bytes.IndexAny(s, chars)\<close> for ASCII \<open>chars\<close>.\<close>

fun IndexAny :: "string \<Rightarrow> string \<Rightarrow> int" where
  "IndexAny [] chars = - 1"
| "IndexAny (c # cs) chars =
     (if c \<in> set chars then 0
      else (let r = IndexAny cs chars in if r < 0 then - 1 else r + 1))"

definition Contains :: "string \<Rightarrow> string \<Rightarrow> bool" where
  "Contains s sub = (0 \<le> Index s sub)"

text \<open>
  \<open>bytes.Fields\<close>: the pieces between runs of white space. Go tests \<open>unicode.IsSpace\<close>;
  the model knows the six ASCII white-space bytes.
\<close>

definition isSpace :: "char \<Rightarrow> bool" where
  "isSpace c = (c \<in> set [HT, LF, CHR 0x0B, CHR 0x0C, CR, SP])"

fun Fields_from :: "string \<Rightarrow> string \<Rightarrow> string list" where
  "Fields_from acc [] = (if acc = [] then [] else [acc])"
| "Fields_from acc (c # cs) =
     (if isSpace c then (if acc = [] then Fields_from [] cs else acc # Fields_from [] cs)
      else Fields_from (acc @ [c]) cs)"

definition Fields :: "string \<Rightarrow> string list" where
  "Fields s = Fields_from [] s"

text \<open>\<open>bytes.Trim(s, cutset)\<close> and \<open>strings.Trim\<close>\<close>

definition Trim :: "string \<Rightarrow> string \<Rightarrow> string" where
  "Trim s cutset =
     rev (dropWhile (\<lambda>c. c \<in> set cutset) (rev (dropWhile (\<lambda>c. c \<in> set cutset) s)))"

text \<open>\<open>strings.Split(s, sep)\<close> for a one-byte separator: always at least one piece.\<close>

fun Split_from :: "char \<Rightarrow> string \<Rightarrow> string \<Rightarrow> string list" where
  "Split_from sep acc [] = [acc]"
| "Split_from sep acc (c # cs) =
     (if c = sep then acc # Split_from sep [] cs else Split_from sep (acc @ [c]) cs)"

definition Split :: "string \<Rightarrow> char \<Rightarrow> string list" where
  "Split s sep = Split_from sep [] s"

text \<open>
  \<open>strings.ToLower\<close> on ASCII: bytes outside \<open>A..Z\<close> stay as they are (Go also maps
  non-ASCII letters).
\<close>

definition lower_char :: "char \<Rightarrow> char" where
  "lower_char c =
     (case map_of (zip ''ABCDEFGHIJKLMNOPQRSTUVWXYZ'' ''abcdefghijklmnopqrstuvwxyz'') c of
        Some d \<Rightarrow> d | None \<Rightarrow> c)"

definition ToLower :: "string \<Rightarrow> string" where
  "ToLower s = map lower_char s"

definition digit_val :: "char \<Rightarrow> int option" where
  "digit_val c = map_of (zip ''0123456789'' [0, 1, 2, 3, 4, 5, 6, 7, 8, 9]) c"

definition hex_val :: "char \<Rightarrow> int option" where
  "hex_val c =
     map_of (zip ''0123456789abcdefABCDEF''
                 [0, 1, 2, 3, 4, 5, 6, 7, 8, 9, 10, 11, 12, 13, 14, 15, 10, 11, 12, 13, 14, 15]) c"

text \<open>The value of a digit string in a base, most significant digit first.\<close>

fun digits_val :: "(char \<Rightarrow> int option) \<Rightarrow> int \<Rightarrow> int \<Rightarrow> string \<Rightarrow> int option" where
  "digits_val dv base acc [] = Some acc"
| "digits_val dv base acc (c # cs) =
     (case dv c of None \<Rightarrow> None | Some d \<Rightarrow> digits_val dv base (acc * base + d) cs)"

text \<open>
  \<open>strconv.Atoi\<close>: an optional sign and at least one decimal digit. The pair is the value
  and whether \<open>err\<close> is nil. A syntax error gives 0; a value outside 64 bits gives the
  nearest bound, with an error.
\<close>

definition Atoi :: "string \<Rightarrow> int \<times> bool" where
  "Atoi s =
     (let neg = (s \<noteq> [] \<and> hd s = CHR ''-'');
          ds = (if s \<noteq> [] \<and> (hd s = CHR ''-'' \<or> hd s = CHR ''+'') then tl s else s)
      in if ds = [] then (0, False)
         else (case digits_val digit_val 10 0 ds of
                 None \<Rightarrow> (0, False)
               | Some v \<Rightarrow>
                   (let x = (if neg then - v else v)
                    in if x < - (2 ^ 63) then (- (2 ^ 63), False)
                       else if 2 ^ 63 - 1 < x then (2 ^ 63 - 1, False)
                       else (x, True))))"

text \<open>
  \<open>string(b)\<close> for a byte \<open>b\<close>: the UTF-8 encoding of the code point \<open>b\<close>, one byte below
  128 and two bytes from 128 on.
\<close>

definition string_of_byte :: "char \<Rightarrow> string" where
  "string_of_byte c =
     (let n = (of_char c :: nat)
      in if n < 128 then [c] else [char_of (192 + n div 64), char_of (128 + n mod 64)])"

text \<open>
  \<open>fmt.Sscanf(line, "%x", &n)\<close>: white space is skipped (a newline is an error), then an
  optional sign and the longest run of hexadecimal digits are read; no digit, or a value
  outside 64 bits, is an error (\<open>None\<close>). What follows the digits is ignored.
\<close>

fun skip_space :: "string \<Rightarrow> string option" where
  "skip_space [] = Some []"
| "skip_space (c # cs) =
     (if c = CR \<and> cs \<noteq> [] \<and> hd cs = LF then skip_space cs
      else if c = LF then None
      else if isSpace c then skip_space cs
      else Some (c # cs))"

definition Sscanf_hex :: "string \<Rightarrow> int option" where
  "Sscanf_hex line =
     (case skip_space line of
        None \<Rightarrow> None
      | Some s \<Rightarrow>
          (let neg = (s \<noteq> [] \<and> hd s = CHR ''-'');
               r = (if s \<noteq> [] \<and> (hd s = CHR ''-'' \<or> hd s = CHR ''+'') then tl s else s);
               ds = takeWhile (\<lambda>c. hex_val c \<noteq> None) r
           in if ds = [] then None
              else (case digits_val hex_val 16 0 ds of
                      None \<Rightarrow> None
                    | Some v \<Rightarrow>
                        (let x = (if neg then - v else v)
                         in if x < - (2 ^ 63) \<or> 2 ^ 63 - 1 < x then None else Some x))))"

section \<open>The data model\<close>

text \<open>
  Modelled from the spec: \<open>common.TcpTuple\<close>, its method \<open>Hashable\<close> and
  \<open>common.CmdlineTuple\<close> are in the package \<open>common\<close>, which is not part of the
  sources. The flow key is the four-tuple, the same tuple value is handed in for both
  directions of a flow, and \<open>Hashable\<close> is its key.
\<close>

record TcpTuple =
  Src_ip :: string
  Src_port :: nat
  Dst_ip :: string
  Dst_port :: nat

definition Hashable :: "TcpTuple \<Rightarrow> string \<times> nat \<times> string \<times> nat" where
  "Hashable t = (Src_ip t, Src_port t, Dst_ip t, Dst_port t)"

record CmdlineTuple =
  cmd_Src :: string
  cmd_Dst :: string

text \<open>
  Modelled from the spec: the two directions of a flow, constants of the package \<open>tcp\<close>,
  which is not part of the sources. A direction is the index into
  \<open>httpPrivateData.Data\<close>.
\<close>

datatype direction = TcpDirectionReverse | TcpDirectionOriginal

datatype parse_state =
  START | FLINE | HEADERS | BODY | BODY_CHUNKED_START | BODY_CHUNKED
  | BODY_CHUNKED_WAIT_FINAL_CRLF

text \<open>
  \<open>HttpMessage\<close>. The fields \<open>start\<close> and \<open>end\<close> are \<open>m_start\<close> and \<open>m_end\<close>; times are
  nanoseconds since the epoch.
\<close>

record HttpMessage =
  Ts :: int
  hasContentLength :: bool
  headerOffset :: int
  bodyOffset :: int
  version_major :: nat
  version_minor :: nat
  connection :: string
  chunked_length :: int
  chunked_body :: string
  IsRequest :: bool
  TcpTuple :: TcpTuple
  CmdlineTuple :: CmdlineTuple
  Direction :: direction
  FirstLine :: string
  RequestUri :: string
  Method :: string
  StatusCode :: nat
  StatusPhrase :: string
  Real_ip :: string
  ContentLength :: int
  TransferEncoding :: string
  Headers :: "string \<rightharpoonup> string"
  Raw :: string
  m_start :: int
  m_end :: int

text \<open>The zero value \<open>&HttpMessage{Ts: ts}\<close>.\<close>

definition new_message :: "int \<Rightarrow> HttpMessage" where
  "new_message ts =
     \<lparr>Ts = ts, hasContentLength = False, headerOffset = 0, bodyOffset = 0,
      version_major = 0, version_minor = 0, connection = [], chunked_length = 0,
      chunked_body = [], IsRequest = False,
      TcpTuple = \<lparr>Src_ip = [], Src_port = 0, Dst_ip = [], Dst_port = 0\<rparr>,
      CmdlineTuple = \<lparr>cmd_Src = [], cmd_Dst = []\<rparr>, Direction = TcpDirectionReverse,
      FirstLine = [], RequestUri = [], Method = [], StatusCode = 0, StatusPhrase = [],
      Real_ip = [], ContentLength = 0, TransferEncoding = [], Headers = Map.empty,
      Raw = [], m_start = 0, m_end = 0\<rparr>"

record HttpStream =
  data :: string
  parseOffset :: int
  parseState :: parse_state
  bodyReceived :: int
  message :: "HttpMessage option"

text \<open>
  Modelled from the spec: a \<open>common.Endpoint\<close>, an address with the process behind it, by
  the three fields this file assigns.
\<close>

record Endpoint =
  Ip :: string
  Port :: nat
  Proc :: string

text \<open>
  The values stored in a \<open>common.MapStr\<close> (a \<open>map[string]interface{}\<close>) by this file: a
  header map is either the message's own \<open>map[string]string\<close> or, with \<open>Split_cookie\<close>,
  a map whose cookie entry is itself a map.
\<close>

datatype hdr = HdrStr string | HdrCookies "string \<rightharpoonup> string"

datatype val =
  VStr string | VU16 nat | VInt int | VI32 int | VTime int | VEndpoint Endpoint
  | VHeaders "string \<rightharpoonup> string" | VSplit "string \<rightharpoonup> hdr" | VMap "string \<rightharpoonup> val"

type_synonym MapStr = "string \<rightharpoonup> val"

text \<open>
  \<open>HttpTransaction\<close>. Three fields share their name with a field of \<open>HttpMessage\<close> and
  carry the prefix \<open>t_\<close>; \<open>Ts\<close> (microseconds) is \<open>t_Ts\<close> and \<open>ts\<close> is \<open>t_ts\<close>. \<open>Http\<close> is
  \<open>None\<close> for a nil map. The timer is modelled by whether one is armed.
\<close>

record HttpTransaction =
  Type :: string
  tuple :: TcpTuple
  Src :: Endpoint
  Dst :: Endpoint
  t_Real_ip :: string
  ResponseTime :: int
  t_Ts :: int
  JsTs :: int
  t_ts :: int
  t_Method :: string
  t_RequestUri :: string
  Http :: "MapStr option"
  Request_raw :: string
  Response_raw :: string
  timer :: bool

text \<open>
  The receiver \<open>Http\<close>: its configuration, the transaction table and the results
  channel (\<open>None\<close> for a nil channel; a send appends).
\<close>

record Http =
  Send_request :: bool
  Send_response :: bool
  Send_headers :: bool
  Send_all_headers :: bool
  Headers_whitelist :: "string list"
  Split_cookie :: bool
  Real_ip_header :: string
  transactionsMap :: "(string \<times> nat \<times> string \<times> nat) \<rightharpoonup> HttpTransaction"
  results :: "MapStr list option"

text \<open>
  What the file reads from other packages: \<open>config.ConfigSingleton\<close>, the constant
  \<open>tcp.TCP_MAX_DATA_IN_STREAM\<close> and the process watcher. They are parameters of the
  model.
\<close>

record Globals =
  Hide_keywords :: "string list"
  Strip_authorization :: bool
  Include_body_for :: "string list"
  TCP_MAX_DATA_IN_STREAM :: int
  FindProcessesTuple :: "TcpTuple \<Rightarrow> CmdlineTuple"

section \<open>The message parser\<close>

definition bind :: "fault + 'a \<Rightarrow> ('a \<Rightarrow> fault + 'b) \<Rightarrow> fault + 'b" where
  "bind x f = (case x of Inl e \<Rightarrow> Inl e | Inr v \<Rightarrow> f v)"

text \<open>\<open>parseVersion\<close>: the two version numbers and whether \<open>err\<close> is nil.\<close>

definition parseVersion :: "string \<Rightarrow> nat \<times> nat \<times> bool" where
  "parseVersion s =
     (if len s < 3 then (0, 0, False)
      else (let major = fst (Atoi (string_of_byte (s ! 0)));
                minor = fst (Atoi (string_of_byte (s ! 2)))
            in (nat (major mod 256), nat (minor mod 256), True)))"

text \<open>
  \<open>parseResponseStatus\<close>: status code (a \<open>uint16\<close>), phrase and whether \<open>err\<close> is nil. The
  slices \<open>s[0:p]\<close> and \<open>s[p+1:]\<close> are in range, \<open>p\<close> being an index of a space in \<open>s\<close>.
\<close>

definition parseResponseStatus :: "string \<Rightarrow> nat \<times> string \<times> bool" where
  "parseResponseStatus s =
     (let p = Index s '' '' in
      if p = - 1 then (0, [], False)
      else (let status_code = fst (Atoi (take (nat p) s));
                p2 = LastIndex s '' '' in
            if p2 = - 1 then (nat (status_code mod 65536), [], False)
            else (nat (status_code mod 65536), drop (nat (p2 + 1)) s, True)))"

lemma Index_ge: "- 1 \<le> Index s sep"
  by (induction s) (auto simp: Let_def)

text \<open>
  The loop of \<open>parseHeader\<close> that looks for the end of the header value, from position
  \<open>p\<close>. Its three exits: no CRLF left (\<open>Incomplete\<close>), the CRLF at \<open>p\<close> ends the value
  (\<open>Found p\<close>), or \<open>p\<close> has reached the end of the data (\<open>RanOut\<close>). The byte read is
  \<open>data[p+1]\<close>, as in the source; it is in range, \<open>p\<close> being the index of a CRLF.
\<close>

datatype hdr_scan = Incomplete | Found int | RanOut

function header_end :: "string \<Rightarrow> int \<Rightarrow> hdr_scan" where
  "header_end dat p =
     (if p < len dat then
        (let q = Index (drop (nat p) dat) CRLF in
         if q = - 1 then Incomplete
         else if len dat > p + q \<and> (dat ! nat (p + q + 1) = SP \<or> dat ! nat (p + q + 1) = HT)
           then header_end dat (p + q + 2)
           else Found (p + q))
      else RanOut)"
  by pat_completeness auto
termination
proof (relation "measure (\<lambda>(dat, p). nat (len dat - p))")
  show "wf (measure (\<lambda>(dat, p). nat (len dat - p)))" by simp
next
  fix dat :: string and p x :: int
  assume "p < len dat" and "x = Index (drop (nat p) dat) CRLF" and "x \<noteq> - 1"
  moreover have "- 1 \<le> Index (drop (nat p) dat) CRLF" by (rule Index_ge)
  ultimately show "((dat, p + x + 2), (dat, p)) \<in> measure (\<lambda>(dat, p). nat (len dat - p))"
    by simp
qed

declare header_end.simps [simp del]

text \<open>\<open>parseHeader\<close> returns \<open>(ok, complete, offset)\<close> and the message as it has left it.\<close>

definition parseHeader :: "Http \<Rightarrow> HttpMessage \<Rightarrow> string \<Rightarrow> bool \<times> bool \<times> int \<times> HttpMessage" where
  "parseHeader http m dat =
     (let i = Index dat '':'' in
      if i = - 1 then (True, False, 0, m)
      else
        (case header_end dat (i + 1) of
           Incomplete \<Rightarrow> (True, False, 0, m)
         | RanOut \<Rightarrow> (True, False, len dat, m)
         | Found p \<Rightarrow>
             (let headerName = ToLower (take (nat i) dat);
                  headerVal = Trim (take (nat (p - (i + 1))) (drop (nat (i + 1)) dat)) [SP, HT];
                  m1 = (if headerName = ''content-length''
                          then m\<lparr>ContentLength := fst (Atoi headerVal), hasContentLength := True\<rparr>
                        else if headerName = ''transfer-encoding''
                          then m\<lparr>TransferEncoding := headerVal\<rparr>
                        else if headerName = ''connection''
                          then m\<lparr>connection := headerVal\<rparr>
                        else m);
                  m2 = (if len (Real_ip_header http) > 0 \<and> headerName = Real_ip_header http
                          then m1\<lparr>Real_ip := headerVal\<rparr> else m1)
              in if Send_headers http then
                   (if \<not> Send_all_headers http \<and> headerName \<notin> set (Headers_whitelist http)
                      then (True, True, p + 2, m2)
                    else (True, True, p + 2,
                          m2\<lparr>Headers :=
                               (case Headers m2 headerName of
                                  Some v \<Rightarrow> (Headers m2)(headerName \<mapsto> v @ '', '' @ headerVal)
                                | None \<Rightarrow> (Headers m2)(headerName \<mapsto> headerVal))\<rparr>))
                 else (True, True, p + 2, m2))))"

text \<open>
  One pass through the body of the loop of \<open>messageParser\<close>: either the loop goes on
  (\<open>Continue\<close>) or the function returns \<open>(ok, complete)\<close>.
\<close>

datatype loop_step = Continue HttpStream HttpMessage | Return bool bool HttpStream HttpMessage

text \<open>The end of the \<open>START\<close> case, from \<open>parseVersion\<close> on.\<close>

definition first_line_done :: "HttpStream \<Rightarrow> HttpMessage \<Rightarrow> string \<Rightarrow> int \<Rightarrow> loop_step" where
  "first_line_done s m version i =
     (case parseVersion version of
        (major, minor, ok) \<Rightarrow>
          (let m1 = (if ok then m\<lparr>version_major := major, version_minor := minor\<rparr>
                     else m\<lparr>version_major := 1, version_minor := 0\<rparr>)
           in Continue (s\<lparr>parseOffset := i + 2, parseState := HEADERS\<rparr>)
                       (m1\<lparr>headerOffset := i + 2\<rparr>)))"

text \<open>
  The \<open>START\<close> case. \<open>i\<close> is an index into \<open>data[parseOffset:]\<close> and is then used as an
  index into \<open>data\<close>, as the source has it. \<open>bytes.Fields\<close> gives pieces whose capacity is
  their length, so \<open>slices[2][:5]\<close> panics on a piece shorter than five bytes.
\<close>

definition state_start :: "HttpStream \<Rightarrow> HttpMessage \<Rightarrow> fault + loop_step" where
  "state_start s m0 =
     (let m = m0\<lparr>m_start := parseOffset s\<rparr> in
      bind (slice_from (data s) (parseOffset s)) (\<lambda>rest.
        let i = Index rest CRLF in
        if i = - 1 then Inr (Return True False s m)
        else
          bind (slice (data s) (parseOffset s) i) (\<lambda>fline.
            if len fline < 8 then Inr (Return False False s m)
            else
              bind (slice fline 0 5) (\<lambda>prefix.
                if prefix = ''HTTP/'' then
                  bind (slice fline 5 8) (\<lambda>version.
                    bind (slice_from fline 9) (\<lambda>status.
                      (case parseResponseStatus status of
                         (code, phrase, ok) \<Rightarrow>
                           (let m1 = m\<lparr>IsRequest := False, StatusCode := code,
                                       StatusPhrase := phrase\<rparr>
                            in if \<not> ok then Inr (Return False False s m1)
                               else Inr (first_line_done s m1 version i)))))
                else
                  (let slices = Fields fline in
                   if length slices \<noteq> 3 then Inr (Return False False s m)
                   else
                     (let m1 = m\<lparr>Method := slices ! 0, RequestUri := slices ! 1\<rparr> in
                      bind (slice (slices ! 2) 0 5) (\<lambda>p5.
                        if p5 = ''HTTP/'' then
                          bind (slice_from (slices ! 2) 5) (\<lambda>version.
                            Inr (first_line_done s (m1\<lparr>IsRequest := True, FirstLine := fline\<rparr>)
                                   version i))
                        else Inr (Return False False s m1))))))))"

text \<open>The \<open>HEADERS\<close> case.\<close>

definition state_headers :: "Http \<Rightarrow> HttpStream \<Rightarrow> HttpMessage \<Rightarrow> fault + loop_step" where
  "state_headers http s m =
     bind (if len (data s) - parseOffset s \<ge> 2
           then bind (slice (data s) (parseOffset s) (parseOffset s + 2)) (\<lambda>two. Inr (two = CRLF))
           else Inr False) (\<lambda>eoh.
       if eoh then
         (let s1 = s\<lparr>parseOffset := parseOffset s + 2\<rparr>;
              m1 = m\<lparr>bodyOffset := parseOffset s + 2\<rparr> in
          if \<not> IsRequest m1 \<and> ((100 \<le> StatusCode m1 \<and> StatusCode m1 < 200)
                                 \<or> StatusCode m1 = 204 \<or> StatusCode m1 = 304)
            then Inr (Return True True s1 (m1\<lparr>m_end := parseOffset s1\<rparr>))
          else if TransferEncoding m1 = ''chunked''
            then Inr (Continue (s1\<lparr>parseState := BODY_CHUNKED_START\<rparr>) m1)
          else if ContentLength m1 = 0 \<and> (IsRequest m1 \<or> hasContentLength m1)
            then Inr (Return True True s1 (m1\<lparr>m_end := parseOffset s1\<rparr>))
          else Inr (Continue (s1\<lparr>parseState := BODY\<rparr>) m1))
       else
         bind (slice_from (data s) (parseOffset s)) (\<lambda>rest.
           (case parseHeader http m rest of
              (ok, hfcomplete, offset, m1) \<Rightarrow>
                if \<not> ok then Inr (Return False False s m1)
                else if \<not> hfcomplete then Inr (Return True False s m1)
                else Inr (Continue (s\<lparr>parseOffset := parseOffset s + offset\<rparr>) m1))))"

text \<open>The \<open>BODY\<close> case.\<close>

definition state_body :: "HttpStream \<Rightarrow> HttpMessage \<Rightarrow> fault + loop_step" where
  "state_body s m =
     (if \<not> hasContentLength m \<and>
         (connection m = ''close'' \<or>
          (version_major m = 1 \<and> version_minor m = 0 \<and> connection m \<noteq> ''keep-alive''))
      then Inr (Return True False
                  (s\<lparr>bodyReceived := bodyReceived s + (len (data s) - parseOffset s),
                     parseOffset := len (data s)\<rparr>)
                  (m\<lparr>ContentLength := int64 (ContentLength m + (len (data s) - parseOffset s))\<rparr>))
      else
        bind (slice_from (data s) (parseOffset s)) (\<lambda>rest.
          if len rest \<ge> int64 (ContentLength m - bodyReceived s) then
            (let off = int64 (parseOffset s + (ContentLength m - bodyReceived s)) in
             Inr (Return True True (s\<lparr>parseOffset := off\<rparr>) (m\<lparr>m_end := off\<rparr>)))
          else Inr (Return True False
                      (s\<lparr>bodyReceived := bodyReceived s + (len (data s) - parseOffset s),
                         parseOffset := len (data s)\<rparr>) m)))"

text \<open>\<open>state_body_chunked_wait_final_crlf\<close>; the two reads are in range under the guard.\<close>

definition state_body_chunked_wait_final_crlf ::
  "HttpStream \<Rightarrow> HttpMessage \<Rightarrow> fault + loop_step" where
  "state_body_chunked_wait_final_crlf s m =
     bind (slice_from (data s) (parseOffset s)) (\<lambda>rest.
       if len rest < 2 then Inr (Return True False s m)
       else
         bind (at (data s) (parseOffset s)) (\<lambda>c0.
           bind (if c0 \<noteq> CR then Inr True
                 else bind (at (data s) (parseOffset s + 1)) (\<lambda>c1. Inr (c1 \<noteq> LF))) (\<lambda>bad.
             if bad then Inr (Return False False s m)
             else Inr (Return True True (s\<lparr>parseOffset := parseOffset s + 2\<rparr>)
                         (m\<lparr>m_end := parseOffset s + 2\<rparr>)))))"

text \<open>
  \<open>state_body_chunked_start\<close>. The source returns \<open>(cont, ok, complete)\<close>; \<open>cont\<close> is
  \<open>Continue\<close> here, and \<open>(false, ok, complete)\<close> is \<open>Return ok complete\<close>.
\<close>

definition state_body_chunked_start :: "HttpStream \<Rightarrow> HttpMessage \<Rightarrow> fault + loop_step" where
  "state_body_chunked_start s m =
     bind (slice_from (data s) (parseOffset s)) (\<lambda>rest.
       let i = Index rest CRLF in
       if i = - 1 then Inr (Return True False s m)
       else
         bind (slice (data s) (parseOffset s) (parseOffset s + i)) (\<lambda>line.
           (case Sscanf_hex line of
              None \<Rightarrow> Inr (Return False False s m)
            | Some n \<Rightarrow>
                (let m1 = m\<lparr>chunked_length := n\<rparr>;
                     s1 = s\<lparr>parseOffset := parseOffset s + (i + 2)\<rparr> in
                 if chunked_length m1 = 0 then
                   bind (slice_from (data s1) (parseOffset s1)) (\<lambda>rest1.
                     if len rest1 < 2
                       then Inr (Return True False
                                   (s1\<lparr>parseState := BODY_CHUNKED_WAIT_FINAL_CRLF\<rparr>) m1)
                     else
                       bind (at (data s1) (parseOffset s1)) (\<lambda>c0.
                         bind (if c0 \<noteq> CR then Inr True
                               else bind (at (data s1) (parseOffset s1 + 1)) (\<lambda>c1. Inr (c1 \<noteq> LF)))
                           (\<lambda>bad.
                             if bad then Inr (Return False False s1 m1)
                             else Inr (Return True True (s1\<lparr>parseOffset := parseOffset s1 + 2\<rparr>)
                                         (m1\<lparr>m_end := parseOffset s1 + 2\<rparr>)))))
                 else Inr (Continue (s1\<lparr>bodyReceived := 0, parseState := BODY_CHUNKED\<rparr>) m1)))))"

text \<open>
  \<open>state_body_chunked\<close>. Go's arithmetic on \<open>chunked_length\<close> wraps at 64 bits. The new
  \<open>parseOffset\<close> is two past the end of the slice just taken, which lies within the data.
\<close>

definition state_body_chunked :: "HttpStream \<Rightarrow> HttpMessage \<Rightarrow> fault + loop_step" where
  "state_body_chunked s m =
     bind (slice_from (data s) (parseOffset s)) (\<lambda>rest.
       if len rest \<ge> int64 (chunked_length m - bodyReceived s + 2) then
         bind (slice (data s) (parseOffset s)
                 (int64 (parseOffset s + chunked_length m - bodyReceived s))) (\<lambda>chunk.
           Inr (Continue
                  (s\<lparr>parseOffset := int64 (parseOffset s + chunked_length m - bodyReceived s) + 2,
                     parseState := BODY_CHUNKED_START\<rparr>)
                  (m\<lparr>chunked_body := chunked_body m @ chunk,
                     ContentLength := int64 (ContentLength m + chunked_length m)\<rparr>)))
       else if len rest \<ge> int64 (chunked_length m - bodyReceived s) then Inr (Return True False s m)
       else Inr (Return True False
                   (s\<lparr>bodyReceived := bodyReceived s + (len (data s) - parseOffset s),
                      parseOffset := len (data s)\<rparr>)
                   (m\<lparr>chunked_body := chunked_body m @ rest\<rparr>)))"

text \<open>
  The \<open>switch\<close>. No case is written for \<open>FLINE\<close>: the loop would spin without changing
  anything, which is \<open>Hang\<close>.
\<close>

definition parser_step :: "Http \<Rightarrow> HttpStream \<Rightarrow> HttpMessage \<Rightarrow> fault + loop_step" where
  "parser_step http s m =
     (case parseState s of
        START \<Rightarrow> state_start s m
      | FLINE \<Rightarrow> Inl Hang
      | HEADERS \<Rightarrow> state_headers http s m
      | BODY \<Rightarrow> state_body s m
      | BODY_CHUNKED_START \<Rightarrow> state_body_chunked_start s m
      | BODY_CHUNKED \<Rightarrow> state_body_chunked s m
      | BODY_CHUNKED_WAIT_FINAL_CRLF \<Rightarrow> state_body_chunked_wait_final_crlf s m)"

subsection \<open>The loop of \<open>messageParser\<close> ends\<close>

text \<open>
  Each pass that does not return moves \<open>parseOffset\<close> forward and leaves the data as it
  is; this is the measure of the loop below.
\<close>

lemma header_end_ge: "header_end dat p = Found r \<Longrightarrow> p \<le> r"
proof (induction dat p rule: header_end.induct)
  case (1 dat p)
  have ge: "- 1 \<le> Index (drop (nat p) dat) CRLF" by (rule Index_ge)
  show ?case
  proof (cases "p < len dat")
    case False
    with "1.prems" show ?thesis by (subst (asm) header_end.simps) simp
  next
    case True
    show ?thesis
      using "1.prems" "1.IH" True ge
      by (subst (asm) header_end.simps) (auto simp: Let_def split: if_splits)
  qed
qed

lemma parseHeader_offset:
  assumes "parseHeader http m dat = (ok, True, off, m')"
  shows "0 < off"
proof -
  have ge: "- 1 \<le> Index dat '':''" by (rule Index_ge)
  show ?thesis
    using assms ge
    by (auto simp: parseHeader_def Let_def split: if_splits hdr_scan.splits dest!: header_end_ge)
qed

lemma bind_Inr: "bind x f = Inr y \<longleftrightarrow> (\<exists>v. x = Inr v \<and> f v = Inr y)"
  by (cases x) (simp_all add: bind_def)


lemma slice_Inr: "slice xs lo hi = Inr ys \<Longrightarrow> 0 \<le> lo \<and> lo \<le> hi \<and> hi \<le> len xs"
  by (simp add: slice_def split: if_splits)

lemma first_line_done_Continue:
  "first_line_done s m v i = Continue s' m' \<Longrightarrow> data s' = data s \<and> parseOffset s' = i + 2"
  by (auto simp: first_line_done_def Let_def split: prod.splits)

lemma state_body_progress:
  "state_body s m = Inr (Continue s' m') \<Longrightarrow> data s' = data s \<and> parseOffset s < parseOffset s'"
  by (auto simp: state_body_def Let_def bind_Inr split: if_splits)

lemma state_wait_progress:
  "state_body_chunked_wait_final_crlf s m = Inr (Continue s' m') \<Longrightarrow> data s' = data s \<and> parseOffset s < parseOffset s'"
  by (auto simp: state_body_chunked_wait_final_crlf_def Let_def bind_Inr split: if_splits)

lemma state_chunked_progress:
  "state_body_chunked s m = Inr (Continue s' m') \<Longrightarrow> data s' = data s \<and> parseOffset s < parseOffset s'"
  by (auto simp: state_body_chunked_def Let_def bind_Inr split: if_splits dest!: slice_Inr)


lemma parseHeader_offset':
  "fst (snd (parseHeader http m dat)) \<Longrightarrow> 0 < fst (snd (snd (parseHeader http m dat)))"
  using parseHeader_offset [of http m dat "fst (parseHeader http m dat)"
      "fst (snd (snd (parseHeader http m dat)))" "snd (snd (snd (parseHeader http m dat)))"]
  by (cases "parseHeader http m dat") auto

lemma state_headers_progress:
  "state_headers http s m = Inr (Continue s' m') \<Longrightarrow> data s' = data s \<and> parseOffset s < parseOffset s'"
  by (auto simp: state_headers_def Let_def bind_Inr case_prod_beta split: if_splits
      dest!: parseHeader_offset')

lemma state_chunked_start_progress:
  assumes "state_body_chunked_start s m = Inr (Continue s' m')"
  shows "data s' = data s \<and> parseOffset s < parseOffset s'"
proof -
  have ge: "- 1 \<le> Index r CRLF" for r by (rule Index_ge)
  from assms obtain rest n where
      i: "Index rest CRLF \<noteq> - 1"
      and s': "s' = s\<lparr>parseOffset := parseOffset s + (Index rest CRLF + 2), bodyReceived := 0, parseState := BODY_CHUNKED\<rparr>"
    by (auto simp: state_body_chunked_start_def Let_def bind_Inr split: if_splits option.splits)
  from i ge [of rest] have "0 \<le> Index rest CRLF" by linarith
  with s' show ?thesis by simp
qed

lemma state_start_progress:
  "state_start s m = Inr (Continue s' m') \<Longrightarrow> data s' = data s \<and> parseOffset s < parseOffset s'"
  by (auto simp: state_start_def Let_def bind_Inr case_prod_beta split: if_splits
      dest!: slice_Inr first_line_done_Continue)

lemma parser_step_progress:
  "parser_step http s m = Inr (Continue s' m') \<Longrightarrow> data s' = data s \<and> parseOffset s < parseOffset s'"
  unfolding parser_step_def
  by (cases "parseState s")
     (simp_all add: state_start_progress state_headers_progress state_body_progress
        state_wait_progress state_chunked_start_progress state_chunked_progress)

subsection \<open>\<open>messageParser\<close>\<close>

function messageParser_loop ::
  "Http \<Rightarrow> HttpStream \<Rightarrow> HttpMessage \<Rightarrow> fault + (bool \<times> bool \<times> HttpStream \<times> HttpMessage)" where
  "messageParser_loop http s m =
     (if parseOffset s < len (data s) then
        (case parser_step http s m of
           Inl f \<Rightarrow> Inl f
         | Inr (Continue s' m') \<Rightarrow> messageParser_loop http s' m'
         | Inr (Return ok complete s' m') \<Rightarrow> Inr (ok, complete, s', m'))
      else Inr (True, False, s, m))"
  by pat_completeness auto
termination
proof (relation "measure (\<lambda>(http, s, m). nat (len (data s) - parseOffset s))")
  show "wf (measure (\<lambda>(http, s, m). nat (len (data s) - parseOffset s)))" by simp
next
  fix http s m x s' m'
  assume "parseOffset s < len (data s)" and "parser_step http s m = Inr x"
    and "x = Continue s' m'"
  then have "data s' = data s \<and> parseOffset s < parseOffset s'"
    using parser_step_progress [of http s m s' m'] by simp
  with \<open>parseOffset s < len (data s)\<close>
  show "((http, s', m'), (http, s, m)) \<in> measure (\<lambda>(http, s, m). nat (len (data s) - parseOffset s))"
    by simp
qed

declare messageParser_loop.simps [simp del]

text \<open>
  \<open>messageParser\<close> returns \<open>(ok, complete)\<close> and leaves the stream changed. The message
  is reached through the pointer \<open>s.message\<close>; every case of the switch dereferences it
  first, so a nil message panics as soon as the loop is entered.
\<close>

definition messageParser :: "Http \<Rightarrow> HttpStream \<Rightarrow> fault + (bool \<times> bool \<times> HttpStream)" where
  "messageParser http s =
     (case message s of
        None \<Rightarrow>
          (if parseOffset s < len (data s)
           then (if parseState s = FLINE then Inl Hang else Inl Panic)
           else Inr (True, False, s))
      | Some m \<Rightarrow>
          (case messageParser_loop http s m of
             Inl f \<Rightarrow> Inl f
           | Inr (ok, complete, s', m') \<Rightarrow> Inr (ok, complete, s'\<lparr>message := Some m'\<rparr>)))"

section \<open>Scrubbing credentials\<close>

text \<open>
  The loop \<open>for i := start_index; i < end_index; i++ { msg[i] = '*' }\<close>: it writes
  nothing when the range is empty and panics at the first index outside \<open>msg\<close>.
\<close>

definition stars :: "string \<Rightarrow> int \<Rightarrow> int \<Rightarrow> fault + string" where
  "stars msg start_index end_index =
     (if end_index \<le> start_index then Inr msg
      else if 0 \<le> start_index \<and> end_index \<le> len msg
        then Inr (take (nat start_index) msg
                  @ replicate (nat (end_index - start_index)) (CHR ''*'')
                  @ drop (nat end_index) msg)
      else Inl Panic)"

text \<open>The lookup \<open>m.Headers[k]\<close>: the empty string for a missing key.\<close>

definition header :: "HttpMessage \<Rightarrow> string \<Rightarrow> string" where
  "header m k = (case Headers m k of None \<Rightarrow> [] | Some v \<Rightarrow> v)"

text \<open>The first half of \<open>censorPasswords\<close>: the Authorization header.\<close>

definition censorAuthorization ::
  "Globals \<Rightarrow> HttpMessage \<Rightarrow> string \<Rightarrow> fault + (HttpMessage \<times> string)" where
  "censorAuthorization g m msg =
     (let auth_text = ''Authorization:'' in
      if Strip_authorization g \<and> header m ''authorization'' \<noteq> [] then
        (let header_len = bodyOffset m - headerOffset m in
         bind (slice msg (headerOffset m) (bodyOffset m)) (\<lambda>block.
           let val_start_x = Index block auth_text in
           bind (if val_start_x \<noteq> - 1 then
                   bind (slice msg (headerOffset m + val_start_x) (bodyOffset m)) (\<lambda>from_auth.
                     let x = Index from_auth CRLF;
                         val_end_x = (if x < 0 \<or> x > header_len then header_len else x);
                         start_index = headerOffset m + val_start_x + len auth_text;
                         end_index = headerOffset m + val_end_x
                     in stars msg start_index end_index)
                 else Inr msg) (\<lambda>msg1.
             Inr (m\<lparr>Headers := (Headers m)(''authorization'' \<mapsto> ''*'')\<rparr>, msg1))))
      else Inr (m, msg))"

text \<open>The body of the loop over the keywords, for one keyword.\<close>

definition censorKeyword :: "HttpMessage \<Rightarrow> string \<Rightarrow> string \<Rightarrow> fault + string" where
  "censorKeyword m keyword msg =
     bind (slice_from msg (bodyOffset m)) (\<lambda>body.
       let index = Index body keyword in
       if index > 0 then
         (let start_index = bodyOffset m + index + len keyword in
          bind (slice_from msg (bodyOffset m + index + len keyword)) (\<lambda>val.
            let x = IndexAny val [CHR ''&'', SP, CR, LF];
                end_index = (if x > 0
                             then (if x + (bodyOffset m + index) > m_end m then m_end m
                                   else x + (bodyOffset m + index))
                             else m_end m)
            in if end_index - start_index < 120 then stars msg start_index end_index
               else Inr msg))
       else Inr msg)"

fun censorKeywords :: "HttpMessage \<Rightarrow> string list \<Rightarrow> string \<Rightarrow> fault + string" where
  "censorKeywords m [] msg = Inr msg"
| "censorKeywords m (keyword # keywords) msg =
     bind (censorKeyword m keyword msg) (censorKeywords m keywords)"

text \<open>\<open>censorPasswords\<close>: the message and the raw bytes as it leaves them.\<close>

definition censorPasswords ::
  "Globals \<Rightarrow> HttpMessage \<Rightarrow> string \<Rightarrow> fault + (HttpMessage \<times> string)" where
  "censorPasswords g m msg =
     (if IsRequest m then
        bind (censorAuthorization g m msg) (\<lambda>(m1, msg1).
          if ContentLength m1 > 0 \<and> Contains (header m1 ''content-type'') ''urlencoded''
          then bind (censorKeywords m1 (Hide_keywords g) msg1) (\<lambda>msg2. Inr (m1, msg2))
          else Inr (m1, msg1))
      else Inr (m, msg))"

section \<open>Transactions\<close>

text \<open>
  \<open>splitCookiesHeader\<close>: \<open>cookie[1]\<close> is out of range for a piece without \<open>=\<close>. The
  pieces are taken in order, a later one overwriting an earlier one of the same name.
\<close>

fun splitCookies :: "string list \<Rightarrow> (string \<rightharpoonup> string) \<Rightarrow> fault + (string \<rightharpoonup> string)" where
  "splitCookies [] cookies = Inr cookies"
| "splitCookies (cval # cstring) cookies =
     (let cookie = Split cval (CHR ''='') in
      bind (at cookie 1) (\<lambda>v.
        splitCookies cstring (cookies(ToLower (Trim (cookie ! 0) [SP]) \<mapsto> v))))"

definition splitCookiesHeader :: "string \<Rightarrow> fault + (string \<rightharpoonup> string)" where
  "splitCookiesHeader headerVal = splitCookies (Split headerVal (CHR '';'')) Map.empty"

text \<open>
  The header map put into a record: the message's own map, or with \<open>Split_cookie\<close> a
  copy in which the entry \<open>name\<close> (\<open>cookie\<close> or \<open>set-cookie\<close>) is split.
\<close>

definition record_headers :: "Http \<Rightarrow> string \<Rightarrow> HttpMessage \<Rightarrow> fault + val" where
  "record_headers http name msg =
     (if \<not> Split_cookie http then Inr (VHeaders (Headers msg))
      else
        (case Headers msg name of
           None \<Rightarrow> Inr (VSplit (\<lambda>k. map_option HdrStr (Headers msg k)))
         | Some hdr_val \<Rightarrow>
             bind (splitCookiesHeader hdr_val) (\<lambda>cookies.
               Inr (VSplit ((\<lambda>k. map_option HdrStr (Headers msg k))(name \<mapsto> HdrCookies cookies))))))"

definition shouldIncludeInBody :: "Globals \<Rightarrow> string \<Rightarrow> bool" where
  "shouldIncludeInBody g contenttype = (\<exists>include \<in> set (Include_body_for g). Contains contenttype include)"

text \<open>
  \<open>cutMessageBody\<close>. The appended bytes land on the message's own bytes in the stream
  buffer, which are cut off when the stream is prepared for the next message.
\<close>

definition cutMessageBody :: "Globals \<Rightarrow> HttpMessage \<Rightarrow> fault + string" where
  "cutMessageBody g m =
     bind (slice (Raw m) 0 (bodyOffset m)) (\<lambda>raw_msg_cut.
       (case Headers m ''content-type'' of
          None \<Rightarrow> Inr raw_msg_cut
        | Some contentType \<Rightarrow>
            if len contentType = 0 \<or> shouldIncludeInBody g contentType then
              (if len (chunked_body m) > 0 then Inr (raw_msg_cut @ chunked_body m)
               else bind (slice_from (Raw m) (bodyOffset m)) (\<lambda>body. Inr (raw_msg_cut @ body)))
            else Inr raw_msg_cut))"

text \<open>Go's integer division, which truncates towards zero, and its conversions.\<close>

definition quot :: "int \<Rightarrow> int \<Rightarrow> int" where
  "quot a b = sgn a * sgn b * (\<bar>a\<bar> div \<bar>b\<bar>)"

definition int32 :: "int \<Rightarrow> int" where
  "int32 x = (x + 2 ^ 31) mod 2 ^ 32 - 2 ^ 31"

text \<open>\<open>t.Sub(u)\<close> in nanoseconds: the difference, kept within 64 bits.\<close>

definition Sub :: "int \<Rightarrow> int \<Rightarrow> int" where
  "Sub t u = max (- (2 ^ 63)) (min (2 ^ 63 - 1) (t - u))"

text \<open>
  A function of this part returns the receiver as it has left it, together with \<open>Inl\<close>
  of a fault or \<open>Inr\<close> of its result.
\<close>

definition new_transaction :: "TcpTuple \<Rightarrow> HttpTransaction" where
  "new_transaction tup =
     \<lparr>Type = ''http'', tuple = tup,
      Src = \<lparr>Ip = [], Port = 0, Proc = []\<rparr>, Dst = \<lparr>Ip = [], Port = 0, Proc = []\<rparr>,
      t_Real_ip = [], ResponseTime = 0, t_Ts = 0, JsTs = 0, t_ts = 0, t_Method = [],
      t_RequestUri = [], Http = None, Request_raw = [], Response_raw = [], timer = False\<rparr>"

definition store :: "Http \<Rightarrow> TcpTuple \<Rightarrow> HttpTransaction \<Rightarrow> Http" where
  "store http tup tr = http\<lparr>transactionsMap := (transactionsMap http)(Hashable tup \<mapsto> tr)\<rparr>"

text \<open>
  \<open>receivedHttpRequest\<close>. The transaction is a pointer held by the table, so what has
  been assigned before a panic stays in the table.
\<close>

definition receivedHttpRequest :: "Globals \<Rightarrow> Http \<Rightarrow> HttpMessage \<Rightarrow> Http \<times> (fault + unit)" where
  "receivedHttpRequest g http msg =
     (let trans0 = (case transactionsMap http (Hashable (TcpTuple msg)) of
                      Some t \<Rightarrow> t | None \<Rightarrow> new_transaction (TcpTuple msg));
          src = \<lparr>Ip = Src_ip (TcpTuple msg), Port = Src_port (TcpTuple msg),
                 Proc = cmd_Src (CmdlineTuple msg)\<rparr>;
          dst = \<lparr>Ip = Dst_ip (TcpTuple msg), Port = Dst_port (TcpTuple msg),
                 Proc = cmd_Dst (CmdlineTuple msg)\<rparr>;
          trans1 = trans0\<lparr>t_ts := Ts msg, t_Ts := quot (Ts msg) 1000, JsTs := Ts msg,
                          Src := (if Direction msg = TcpDirectionReverse then dst else src),
                          Dst := (if Direction msg = TcpDirectionReverse then src else dst)\<rparr>
      in case (if Send_request http then cutMessageBody g msg else Inr (Request_raw trans1)) of
           Inl f \<Rightarrow> (store http (TcpTuple msg) trans1, Inl f)
         | Inr raw \<Rightarrow>
             (let trans2 = trans1\<lparr>Request_raw := raw, t_Method := Method msg,
                                   t_RequestUri := RequestUri msg, Http := Some Map.empty\<rparr>
              in case (if Send_headers http
                       then bind (record_headers http ''cookie'' msg) (\<lambda>h.
                              Inr [''request_headers'' \<mapsto> h])
                       else Inr Map.empty) of
                   Inl f \<Rightarrow> (store http (TcpTuple msg) trans2, Inl f)
                 | Inr h \<Rightarrow>
                     (store http (TcpTuple msg)
                        (trans2\<lparr>Http := Some h, t_Real_ip := Real_ip msg, timer := True\<rparr>),
                      Inr ())))"

text \<open>\<open>expireTransaction\<close>, the callback of the timer.\<close>

definition expireTransaction :: "Http \<Rightarrow> HttpTransaction \<Rightarrow> Http" where
  "expireTransaction http tr =
     http\<lparr>transactionsMap := (transactionsMap http)(Hashable (tuple tr) := None)\<rparr>"

text \<open>
  \<open>PublishTransaction\<close>. Modelled from the spec: the constants \<open>common.OK_STATUS\<close> and
  \<open>common.ERROR_STATUS\<close> are not part of the sources; the spec gives "OK" and "ERROR".
\<close>

definition PublishTransaction :: "Http \<Rightarrow> HttpTransaction \<Rightarrow> Http \<times> (fault + unit)" where
  "PublishTransaction http t =
     (case results http of
        None \<Rightarrow> (http, Inr ())
      | Some sent \<Rightarrow>
          (case (case Http t of None \<Rightarrow> None | Some h \<Rightarrow> h ''code'') of
             Some (VU16 code) \<Rightarrow>
               (let e1 = [''type'' \<mapsto> VStr ''http'',
                          ''status'' \<mapsto> VStr (if code < 400 then ''OK'' else ''ERROR''),
                          ''responsetime'' \<mapsto> VI32 (ResponseTime t)];
                    e2 = (if Send_request http then e1(''request_raw'' \<mapsto> VStr (Request_raw t))
                          else e1);
                    e3 = (if Send_response http then e2(''response_raw'' \<mapsto> VStr (Response_raw t))
                          else e2);
                    e4 = e3(''http'' \<mapsto> VMap (case Http t of None \<Rightarrow> Map.empty | Some h \<Rightarrow> h));
                    e5 = (if len (t_Real_ip t) > 0 then e4(''real_ip'' \<mapsto> VStr (t_Real_ip t))
                          else e4);
                    event = e5(''method'' \<mapsto> VStr (t_Method t), ''path'' \<mapsto> VStr (t_RequestUri t),
                               ''@timestamp'' \<mapsto> VTime (t_ts t),
                               ''src'' \<mapsto> VEndpoint (Src t), ''dst'' \<mapsto> VEndpoint (Dst t))
                in (http\<lparr>results := Some (sent @ [event])\<rparr>, Inr ()))
           | _ \<Rightarrow> (http, Inl Panic)))"

text \<open>\<open>receivedHttpResponse\<close>\<close>

definition receivedHttpResponse :: "Globals \<Rightarrow> Http \<Rightarrow> HttpMessage \<Rightarrow> Http \<times> (fault + unit)" where
  "receivedHttpResponse g http msg =
     (case transactionsMap http (Hashable (TcpTuple msg)) of
        None \<Rightarrow> (http, Inr ())
      | Some tr \<Rightarrow>
          (case Http tr of
             None \<Rightarrow> (http, Inr ())
           | Some h \<Rightarrow>
               (let response = [''phrase'' \<mapsto> VStr (StatusPhrase msg),
                                ''code'' \<mapsto> VU16 (StatusCode msg),
                                ''content_length'' \<mapsto> VInt (ContentLength msg)]
                in case (if Send_headers http
                         then bind (record_headers http ''set-cookie'' msg) (\<lambda>hs.
                                Inr (response(''response_headers'' \<mapsto> hs)))
                         else Inr response) of
                     Inl f \<Rightarrow> (http, Inl f)
                   | Inr response1 \<Rightarrow>
                       (let trans1 = tr\<lparr>Http := Some (h ++ response1),
                                ResponseTime := int32 (quot (Sub (Ts msg) (t_ts tr)) 1000000)\<rparr>
                        in case (if Send_response http then cutMessageBody g msg
                                 else Inr (Response_raw trans1)) of
                             Inl f \<Rightarrow> (store http (TcpTuple msg) trans1, Inl f)
                           | Inr raw \<Rightarrow>
                               (let trans2 = trans1\<lparr>Response_raw := raw\<rparr>
                                in case PublishTransaction (store http (TcpTuple msg) trans2) trans2 of
                                     (http1, Inl f) \<Rightarrow> (http1, Inl f)
                                   | (http1, Inr u) \<Rightarrow>
                                       (http1\<lparr>transactionsMap :=
                                                 (transactionsMap http1)(Hashable (tuple trans2) := None)\<rparr>,
                                        Inr ()))))))"

text \<open>\<open>handleHttp\<close>\<close>

definition handleHttp ::
  "Globals \<Rightarrow> Http \<Rightarrow> HttpMessage \<Rightarrow> TcpTuple \<Rightarrow> direction \<Rightarrow> string \<Rightarrow> Http \<times> (fault + unit)" where
  "handleHttp g http m tcptuple dir raw_msg =
     (let m1 = m\<lparr>TcpTuple := tcptuple, Direction := dir,
                 CmdlineTuple := FindProcessesTuple g tcptuple, Raw := raw_msg\<rparr>
      in if IsRequest m1 then receivedHttpRequest g http m1 else receivedHttpResponse g http m1)"

section \<open>The entry point \<open>Parse\<close>\<close>

text \<open>
  \<open>httpPrivateData\<close>: the two streams of a flow, by direction. A nil \<open>private\<close> is \<open>None\<close>.
\<close>

type_synonym httpPrivateData = "direction \<Rightarrow> HttpStream option"

text \<open>\<open>PrepareForNewMessage\<close>; the message is not nil where it is called.\<close>

definition PrepareForNewMessage :: "HttpStream \<Rightarrow> fault + HttpStream" where
  "PrepareForNewMessage stream =
     (case message stream of
        None \<Rightarrow> Inl Panic
      | Some m \<Rightarrow>
          bind (slice_from (data stream) (m_end m)) (\<lambda>rest.
            Inr (stream\<lparr>data := rest, parseState := START, parseOffset := 0,
                        bodyReceived := 0, message := None\<rparr>)))"

text \<open>
  What \<open>Parse\<close> does with a completed message: scrub it, hand it on, reset the stream.
  The bytes scrubbed lie before \<open>end\<close> and are dropped by the reset.
\<close>

definition ship ::
  "Globals \<Rightarrow> Http \<Rightarrow> TcpTuple \<Rightarrow> direction \<Rightarrow> HttpStream \<Rightarrow> Http \<times> (fault + HttpStream)" where
  "ship g http tcptuple dir stream =
     (case message stream of
        None \<Rightarrow> (http, Inl Panic)
      | Some m \<Rightarrow>
          (case bind (slice (data stream) (m_start m) (m_end m)) (censorPasswords g m) of
             Inl f \<Rightarrow> (http, Inl f)
           | Inr (m1, msg) \<Rightarrow>
               (case handleHttp g http m1 tcptuple dir msg of
                  (http1, Inl f) \<Rightarrow> (http1, Inl f)
                | (http1, Inr u) \<Rightarrow> (http1, PrepareForNewMessage stream))))"

text \<open>
  The first lines of \<open>Parse\<close>: the stream the parser is run on, a new one holding
  the payload, or the old one with the payload appended and a message put in if there
  is none. \<open>None\<close> when the appended data is larger than the cap.
\<close>

definition incoming :: "Globals \<Rightarrow> string \<Rightarrow> int \<Rightarrow> HttpStream option \<Rightarrow> HttpStream option" where
  "incoming g payload ts old =
     (case old of
        None \<Rightarrow> Some \<lparr>data = payload, parseOffset = 0, parseState = START,
                       bodyReceived = 0, message = Some (new_message ts)\<rparr>
      | Some stream \<Rightarrow>
          (if len (data stream @ payload) > TCP_MAX_DATA_IN_STREAM g then None
           else Some (stream\<lparr>data := data stream @ payload,
                             message := (case message stream of
                                           None \<Rightarrow> Some (new_message ts)
                                         | Some m \<Rightarrow> Some m)\<rparr>)))"

text \<open>The body of \<open>Parse\<close>, before the deferred \<open>logp.Recover\<close>.\<close>

definition Parse_body ::
  "Globals \<Rightarrow> Http \<Rightarrow> string \<Rightarrow> int \<Rightarrow> TcpTuple \<Rightarrow> direction \<Rightarrow> httpPrivateData option
     \<Rightarrow> Http \<times> (fault + httpPrivateData)" where
  "Parse_body g http payload ts tcptuple dir private =
     (let priv = (case private of None \<Rightarrow> (\<lambda>d. None) | Some p \<Rightarrow> p) in
      case incoming g payload ts (priv dir) of
        None \<Rightarrow> (http, Inr (priv(dir := None)))
      | Some stream \<Rightarrow>
          (case messageParser http stream of
             Inl f \<Rightarrow> (http, Inl f)
           | Inr (ok, complete, stream1) \<Rightarrow>
               if \<not> ok then (http, Inr (priv(dir := None)))
               else if complete then
                 (case ship g http tcptuple dir stream1 of
                    (http1, Inl f) \<Rightarrow> (http1, Inl f)
                  | (http1, Inr stream2) \<Rightarrow> (http1, Inr (priv(dir := Some stream2))))
               else (http, Inr (priv(dir := Some stream1)))))"

text \<open>
  \<open>Parse\<close>. Modelled from the spec: \<open>logp.Recover\<close> is not part of the sources; the
  spec has every entry point return normally, so a panic is recovered and \<open>Parse\<close>
  returns the zero value, a nil private state. A \<open>Parse\<close> that hangs does not return.
\<close>

definition Parse ::
  "Globals \<Rightarrow> Http \<Rightarrow> string \<Rightarrow> int \<Rightarrow> TcpTuple \<Rightarrow> direction \<Rightarrow> httpPrivateData option
     \<Rightarrow> (Http \<times> httpPrivateData option) option" where
  "Parse g http payload ts tcptuple dir private =
     (case Parse_body g http payload ts tcptuple dir private of
        (http1, Inl Panic) \<Rightarrow> Some (http1, None)
      | (http1, Inl Hang) \<Rightarrow> None
      | (http1, Inr priv) \<Rightarrow> Some (http1, Some priv))"


text \<open>The records sent to the results channel so far.\<close>

definition sent :: "Http \<Rightarrow> MapStr list" where
  "sent http = (case results http of None \<Rightarrow> [] | Some r \<Rightarrow> r)"

definition emitted :: "(Http \<times> httpPrivateData option) option \<Rightarrow> MapStr list" where
  "emitted r = (case r of None \<Rightarrow> [] | Some (http, private) \<Rightarrow> sent http)"

section \<open>Configurations and inputs of the examples\<close>

text \<open>
  A receiver as \<open>Init\<close> leaves it (requests and responses sent, no headers kept), with
  an empty table and an empty results channel; and one that keeps every header.
\<close>

definition http_default :: Http where
  "http_default =
     \<lparr>Send_request = True, Send_response = True, Send_headers = False,
      Send_all_headers = False, Headers_whitelist = [], Split_cookie = False,
      Real_ip_header = [], transactionsMap = Map.empty, results = Some []\<rparr>"

definition http_all_headers :: Http where
  "http_all_headers = http_default\<lparr>Send_headers := True, Send_all_headers := True\<rparr>"

definition no_procs :: "TcpTuple \<Rightarrow> CmdlineTuple" where
  "no_procs t = \<lparr>cmd_Src = [], cmd_Dst = []\<rparr>"

definition globals_default :: Globals where
  "globals_default =
     \<lparr>Hide_keywords = [], Strip_authorization = False, Include_body_for = [],
      TCP_MAX_DATA_IN_STREAM = 10485760, FindProcessesTuple = no_procs\<rparr>"

definition flow :: TcpTuple where
  "flow = \<lparr>Src_ip = ''10.0.0.1'', Src_port = 40000, Dst_ip = ''10.0.0.2'', Dst_port = 80\<rparr>"

text \<open>The stream \<open>Parse\<close> makes of the first payload of a direction.\<close>

definition first_stream :: "string \<Rightarrow> HttpStream" where
  "first_stream payload =
     \<lparr>data = payload, parseOffset = 0, parseState = START, bodyReceived = 0,
      message = Some (new_message 0)\<rparr>"

definition chunk_stream :: "string \<Rightarrow> HttpStream" where
  "chunk_stream d = (first_stream d)\<lparr>parseState := BODY_CHUNKED\<rparr>"

definition chunk_message :: HttpMessage where
  "chunk_message = (new_message 0)\<lparr>chunked_length := 5\<rparr>"

definition cookie_request :: HttpMessage where
  "cookie_request =
     (new_message 0)\<lparr>IsRequest := True, Headers := [''cookie'' \<mapsto> ''x=1; flag'']\<rparr>"

definition request_a :: string where
  "request_a = ''GET /a HTTP/1.1'' @ CRLF @ CRLF"

definition response_a :: string where
  "response_a = ''HTTP/1.1 204 No Content'' @ CRLF @ CRLF"

text \<open>Scenario S5 of the spec: a form with a password in its body.\<close>

definition S5_request :: string where
  "S5_request =
     ''POST /login HTTP/1.1'' @ CRLF
     @ ''Content-Type: application/x-www-form-urlencoded'' @ CRLF
     @ ''Content-Length: 28'' @ CRLF @ CRLF
     @ ''user=bob&password=secret&x=1''"

definition globals_hide :: Globals where
  "globals_hide =
     globals_default\<lparr>Hide_keywords := [''password=''], Include_body_for := [''urlencoded'']\<rparr>"

text \<open>Scenario S4 of the spec: a request with an Authorization header.\<close>

definition auth_request :: string where
  "auth_request =
     ''GET / HTTP/1.1'' @ CRLF @ ''Authorization: Basic dXNlcjpwYXNz'' @ CRLF @ CRLF"

definition auth_message :: HttpMessage where
  "auth_message =
     (new_message 0)\<lparr>IsRequest := True, headerOffset := 16, bodyOffset := 53, m_end := 53,
                       Headers := [''authorization'' \<mapsto> ''Basic dXNlcjpwYXNz'']\<rparr>"

definition globals_strip :: Globals where
  "globals_strip = globals_default\<lparr>Strip_authorization := True\<rparr>"

text \<open>The raw request kept in the pending transaction of \<open>flow\<close>, after a \<open>Parse\<close>.\<close>

definition pending_request_raw :: "(Http \<times> httpPrivateData option) option \<Rightarrow> string option" where
  "pending_request_raw r =
     (case r of
        None \<Rightarrow> None
      | Some (http, private) \<Rightarrow> map_option Request_raw (transactionsMap http (Hashable flow)))"

text \<open>A header whose value is folded onto a second line.\<close>

definition folded_header :: string where
  "folded_header = ''X-A: a'' @ CRLF @ '' b'' @ CRLF @ CRLF"

text \<open>A stream at the end of the headers, with three bytes of body.\<close>

definition eoh_stream :: HttpStream where
  "eoh_stream = (first_stream (CRLF @ ''abc''))\<lparr>parseState := HEADERS\<rparr>"

definition Chunked_message :: HttpMessage where
  "Chunked_message =
     (new_message 0)\<lparr>IsRequest := True, TransferEncoding := ''Chunked'', ContentLength := 3,
                       hasContentLength := True\<rparr>"

text \<open>The value of a byte as a decimal digit, 0 for any other byte.\<close>

definition digit_or_zero :: "char \<Rightarrow> nat" where
  "digit_or_zero c = (case digit_val c of Some d \<Rightarrow> nat d | None \<Rightarrow> 0)"

text \<open>The status codes of responses that never have a body.\<close>

definition no_body_status :: "nat \<Rightarrow> bool" where
  "no_body_status code = ((100 \<le> code \<and> code < 200) \<or> code = 204 \<or> code = 304)"

text \<open>
  The definitions of the model and the recursion equations of its two loops, for
  evaluating it on the inputs above.
\<close>

lemmas model_defs =
  CR_def LF_def HT_def SP_def CRLF_def len_def slice_def slice_from_def at_def int64_def
  LastIndex_def Contains_def isSpace_def Fields_def Trim_def Split_def lower_char_def
  ToLower_def digit_val_def hex_val_def Atoi_def string_of_byte_def Sscanf_hex_def
  Hashable_def new_message_def bind_def parseVersion_def parseResponseStatus_def
  parseHeader_def first_line_done_def state_start_def state_headers_def
  state_body_def state_body_chunked_wait_final_crlf_def state_body_chunked_start_def
  state_body_chunked_def parser_step_def messageParser_def stars_def header_def
  censorAuthorization_def censorKeyword_def censorPasswords_def splitCookiesHeader_def
  record_headers_def shouldIncludeInBody_def cutMessageBody_def quot_def int32_def
  Sub_def new_transaction_def store_def receivedHttpRequest_def expireTransaction_def
  PublishTransaction_def receivedHttpResponse_def handleHttp_def PrepareForNewMessage_def
  ship_def incoming_def Parse_body_def Parse_def sent_def emitted_def http_default_def
  http_all_headers_def no_procs_def globals_default_def flow_def first_stream_def
  chunk_stream_def chunk_message_def cookie_request_def request_a_def response_a_def
  S5_request_def globals_hide_def auth_request_def auth_message_def globals_strip_def
  pending_request_raw_def folded_header_def eoh_stream_def Chunked_message_def
  messageParser_loop.simps header_end.simps

section \<open>Chunk data: waiting for the trailing CRLF\<close>






section \<open>A response without a request\<close>

text \<open>
  C9. A completed response (a message that is not a request) whose flow key has no
  entry in the transaction table, or an entry without a request record (\<open>Http\<close> nil), is
  dropped by \<open>handleHttp\<close>: the receiver comes back as it was, so the table is unchanged
  and nothing is sent to the results channel.
\<close>

theorem response_without_request:
  assumes "transactionsMap http (Hashable tcptuple) = None
           \<or> (\<exists>tr. transactionsMap http (Hashable tcptuple) = Some tr \<and> Http tr = None)"
    and "\<not> IsRequest m"
  shows "handleHttp g http m tcptuple dir raw_msg = (http, Inr ())"
  using assms by (auto simp: handleHttp_def receivedHttpResponse_def Let_def)


theorem response_without_request_witness:
  "handleHttp globals_default http_default (new_message 0) flow TcpDirectionOriginal []
     = (http_default, Inr ())"
  using response_without_request [of http_default flow "new_message 0"]
  by (simp add: http_default_def new_message_def)

section \<open>Splitting cookies\<close>

lemma length_Split_from: "length (Split_from sep acc s) = Suc (length (filter ((=) sep) s))"
  by (induction s arbitrary: acc) auto

lemma at_Split_1: "(\<exists>v. at (Split c sep) 1 = Inr v) \<longleftrightarrow> sep \<in> set c"
proof -
  have "(1 < length (Split c sep)) \<longleftrightarrow> sep \<in> set c"
    by (auto simp: Split_def length_Split_from filter_empty_conv)
  then show ?thesis by (auto simp: at_def len_def)
qed

lemma at_Split_1_Panic: "sep \<notin> set c \<Longrightarrow> at (Split c sep) 1 = Inl Panic"
  using at_Split_1 [of c sep] by (auto simp: at_def split: if_splits)

lemma splitCookies_Inr:
  "(\<exists>r. splitCookies cs cookies = Inr r) \<longleftrightarrow> (\<forall>c \<in> set cs. CHR ''='' \<in> set c)"
proof (induction cs arbitrary: cookies)
  case Nil
  show ?case by simp
next
  case (Cons c cs)
  show ?case
  proof (cases "CHR ''='' \<in> set c")
    case True
    then obtain v where v: "at (Split c (CHR ''='')) 1 = Inr v"
      using at_Split_1 [of c "CHR ''=''"] by blast
    show ?thesis using True Cons.IH by (simp add: Let_def bind_def v)
  next
    case False
    then show ?thesis by (auto simp: Let_def bind_def at_Split_1_Panic)
  qed
qed

lemma splitCookies_fault: "splitCookies cs cookies = Inl f \<Longrightarrow> f = Panic"
proof (induction cs arbitrary: cookies)
  case Nil
  then show ?case by simp
next
  case (Cons c cs)
  then show ?case
    by (auto simp: Let_def bind_def at_def split: sum.splits if_splits)
qed

lemma splitCookiesHeader_Panic:
  "\<exists>c \<in> set (Split v (CHR '';'')). CHR ''='' \<notin> set c \<Longrightarrow> splitCookiesHeader v = Inl Panic"
  unfolding splitCookiesHeader_def
  using splitCookies_Inr [of "Split v (CHR '';'')" Map.empty] splitCookies_fault
  by (cases "splitCookies (Split v (CHR '';'')) Map.empty") auto

lemma cutMessageBody_fault: "cutMessageBody g m = Inl f \<Longrightarrow> f = Panic"
  by (auto simp: cutMessageBody_def bind_def slice_def slice_from_def split: sum.splits if_splits option.splits)

text \<open>
  C10. \<open>splitCookiesHeader\<close> returns a map exactly when every piece of the value between
  semicolons holds a \<open>=\<close>; with a piece that holds none it panics (\<open>cookie[1]\<close> is out of
  range), and so do \<open>receivedHttpRequest\<close> on a message whose \<open>cookie\<close> header has that
  value and \<open>receivedHttpResponse\<close> on a response to a pending request whose \<open>set-cookie\<close>
  header has it, when headers are sent and \<open>Split_cookie\<close> is on. The values \<open>a\<close> and
  \<open>x=1; flag\<close> are such values.
\<close>

theorem splitCookiesHeader_partial:
  "((\<exists>cookies. splitCookiesHeader headerVal = Inr cookies)
      \<longleftrightarrow> (\<forall>c \<in> set (Split headerVal (CHR '';'')). CHR ''='' \<in> set c))
   \<and> ((\<exists>c \<in> set (Split headerVal (CHR '';'')). CHR ''='' \<notin> set c) \<longrightarrow>
        splitCookiesHeader headerVal = Inl Panic
        \<and> (Send_headers http \<and> Split_cookie http \<and> Headers msg ''cookie'' = Some headerVal \<longrightarrow>
             snd (receivedHttpRequest g http msg) = Inl Panic)
        \<and> (Send_headers http \<and> Split_cookie http \<and> Headers msg ''set-cookie'' = Some headerVal
             \<and> transactionsMap http (Hashable (TcpTuple msg)) = Some tr \<and> Http tr = Some h \<longrightarrow>
             snd (receivedHttpResponse g http msg) = Inl Panic))
   \<and> splitCookiesHeader ''a'' = Inl Panic
   \<and> splitCookiesHeader ''x=1; flag'' = Inl Panic"
proof (intro conjI impI)
  show "(\<exists>cookies. splitCookiesHeader headerVal = Inr cookies)
      \<longleftrightarrow> (\<forall>c \<in> set (Split headerVal (CHR '';'')). CHR ''='' \<in> set c)"
    unfolding splitCookiesHeader_def by (rule splitCookies_Inr)
next
  assume "\<exists>c \<in> set (Split headerVal (CHR '';'')). CHR ''='' \<notin> set c"
  then show "splitCookiesHeader headerVal = Inl Panic" by (rule splitCookiesHeader_Panic)
next
  assume bad: "\<exists>c \<in> set (Split headerVal (CHR '';'')). CHR ''='' \<notin> set c"
    and cfg: "Send_headers http \<and> Split_cookie http \<and> Headers msg ''cookie'' = Some headerVal"
  have p: "splitCookiesHeader headerVal = Inl Panic" using bad by (rule splitCookiesHeader_Panic)
  show "snd (receivedHttpRequest g http msg) = Inl Panic"
    using cfg p
    by (auto simp: receivedHttpRequest_def record_headers_def Let_def bind_def
        split: sum.splits dest: cutMessageBody_fault)
next
  assume bad: "\<exists>c \<in> set (Split headerVal (CHR '';'')). CHR ''='' \<notin> set c"
    and cfg: "Send_headers http \<and> Split_cookie http \<and> Headers msg ''set-cookie'' = Some headerVal
             \<and> transactionsMap http (Hashable (TcpTuple msg)) = Some tr \<and> Http tr = Some h"
  have p: "splitCookiesHeader headerVal = Inl Panic" using bad by (rule splitCookiesHeader_Panic)
  show "snd (receivedHttpResponse g http msg) = Inl Panic"
    using cfg p
    by (auto simp: receivedHttpResponse_def record_headers_def Let_def bind_def)
next
  show "splitCookiesHeader ''a'' = Inl Panic"
    by (simp add: splitCookiesHeader_def Split_def Let_def bind_def at_def len_def)
next
  show "splitCookiesHeader ''x=1; flag'' = Inl Panic"
    by (simp add: splitCookiesHeader_def Split_def Let_def bind_def at_def len_def)
qed


theorem splitCookiesHeader_partial_witness:
  "(\<exists>c \<in> set (Split ''x=1; flag'' (CHR '';'')). CHR ''='' \<notin> set c)
   \<and> splitCookiesHeader ''x=1; flag'' = Inl Panic
   \<and> snd (receivedHttpRequest globals_default (http_all_headers\<lparr>Split_cookie := True\<rparr>)
            cookie_request) = Inl Panic"
proof -
  have bad: "\<exists>c \<in> set (Split ''x=1; flag'' (CHR '';'')). CHR ''='' \<notin> set c"
    by (simp add: Split_def)
  have cfg: "Send_headers (http_all_headers\<lparr>Split_cookie := True\<rparr>)
      \<and> Split_cookie (http_all_headers\<lparr>Split_cookie := True\<rparr>)
      \<and> Headers cookie_request ''cookie'' = Some ''x=1; flag''"
    by (simp add: http_all_headers_def http_default_def cookie_request_def)
  show ?thesis
    using bad cfg
      splitCookiesHeader_partial [of "''x=1; flag''" "http_all_headers\<lparr>Split_cookie := True\<rparr>"
        cookie_request globals_default]
    by blast
qed

section \<open>One message for each call of \<open>Parse\<close>\<close>



lemma sent_store [simp]: "sent (store http tup tr) = sent http"
  by (simp add: sent_def store_def)




lemma sent_transactionsMap [simp]: "sent (h\<lparr>transactionsMap := tm\<rparr>) = sent h"
  by (simp add: sent_def)










section \<open>Passwords in form bodies\<close>

text \<open>
  C2 fails on scenario S5 of the spec: with the keyword \<open>password=\<close> hidden and every
  header kept, the request of S5 goes into the pending transaction with its body as
  it came, \<open>user=bob&password=secret&x=1\<close>. \<open>censorPasswords\<close> adds \<open>bodyOffset + index\<close> to
  the length of the value, not the index after the keyword, so the span to overwrite
  ends before it starts.
\<close>

theorem S5_password_not_masked:
  "pending_request_raw (Parse globals_hide http_all_headers S5_request 0 flow
                          TcpDirectionOriginal None) = Some S5_request"
  by (simp add: model_defs)

section \<open>The Authorization header\<close>








section \<open>Folded header lines\<close>

lemma Index_found: "0 \<le> Index s sep \<Longrightarrow> take (length sep) (drop (nat (Index s sep)) s) = sep"
proof (induction s)
  case Nil
  then show ?case by (simp split: if_splits)
next
  case (Cons c cs)
  show ?case
  proof (cases "take (length sep) (c # cs) = sep")
    case True
    then show ?thesis by simp
  next
    case False
    with Cons.prems have r: "0 \<le> Index cs sep" by (simp add: Let_def split: if_splits)
    then have "Index (c # cs) sep = Index cs sep + 1" using False by (simp add: Let_def)
    moreover have "nat (Index cs sep + 1) = Suc (nat (Index cs sep))" using r by simp
    ultimately show ?thesis using Cons.IH [OF r] by simp
  qed
qed

lemma CRLF_at:
  assumes "0 \<le> p" "Index (drop (nat p) dat) CRLF \<noteq> - 1"
  shows "dat ! nat (p + Index (drop (nat p) dat) CRLF + 1) = LF"
proof -
  define q where "q = Index (drop (nat p) dat) CRLF"
  define r where "r = drop (nat q) (drop (nat p) dat)"
  have q: "0 \<le> q" using assms(2) Index_ge [of "drop (nat p) dat" CRLF] by (simp add: q_def)
  from Index_found [of "drop (nat p) dat" CRLF] q
  have t: "take (length CRLF) r = CRLF" by (simp add: q_def r_def)
  have "1 < length r \<and> r ! 1 = LF"
    using t by (cases r; cases "tl r") (auto simp: CRLF_def)
  then have l: "1 < length r" and e: "r ! 1 = LF" by simp_all
  have le: "nat p + nat q \<le> length dat" using l by (simp add: r_def)
  have "r ! 1 = dat ! (nat p + nat q + 1)"
    unfolding r_def drop_drop using nth_drop [OF le, of 1] by (simp add: add.commute)
  with e have "dat ! (nat p + nat q + 1) = LF" by simp
  moreover have "nat (p + q + 1) = nat p + nat q + 1" using assms(1) q by simp
  ultimately show ?thesis by (simp add: q_def)
qed

text \<open>
  C4 fails where a header value is folded. The loop of \<open>parseHeader\<close> tests
  \<open>data[p+1]\<close>, the LF of the CRLF it has found, for SP or HT, not the byte after the
  CRLF; so it never skips a CRLF: from any position the value ends at the first CRLF.
\<close>

theorem folding_never_taken:
  assumes "0 \<le> p"
  shows "header_end dat p =
     (if p < len dat then
        (if Index (drop (nat p) dat) CRLF = - 1 then Incomplete
         else Found (p + Index (drop (nat p) dat) CRLF))
      else RanOut)"
proof (cases "p < len dat \<and> Index (drop (nat p) dat) CRLF \<noteq> - 1")
  case True
  then have "dat ! nat (p + Index (drop (nat p) dat) CRLF + 1) = LF"
    using assms CRLF_at by blast
  then show ?thesis
    using True by (subst header_end.simps) (simp add: Let_def LF_def SP_def HT_def)
next
  case False
  then show ?thesis by (subst header_end.simps) (auto simp: Let_def)
qed

theorem folding_never_taken_witness:
  "header_end folded_header 4 = Found 6
   \<and> (case parseHeader http_all_headers (new_message 0) folded_header of
        (ok, complete, offset, m) \<Rightarrow> (ok, complete, offset, Headers m ''x-a''))
     = (True, True, 8, Some ''a'')"
proof
  show "header_end folded_header 4 = Found 6"
    using folding_never_taken [of 4 folded_header]
    by (simp add: folded_header_def CRLF_def CR_def LF_def len_def)
next
  show "(case parseHeader http_all_headers (new_message 0) folded_header of
        (ok, complete, offset, m) \<Rightarrow> (ok, complete, offset, Headers m ''x-a''))
     = (True, True, 8, Some ''a'')"
    by (simp add: model_defs)
qed

section \<open>The version of a message\<close>

lemma digit_val_Some:
  "digit_val c = Some d \<Longrightarrow> 0 \<le> d \<and> d \<le> 9 \<and> of_char c < (128::nat) \<and> c \<noteq> CHR ''-'' \<and> c \<noteq> CHR ''+''"
  by (auto simp: digit_val_def split: if_splits)

lemma high_char_no_digit: "(128::nat) \<le> of_char c \<Longrightarrow> digit_val c = None \<and> c \<noteq> CHR ''-'' \<and> c \<noteq> CHR ''+''"
  using digit_val_Some [of c] by (cases "digit_val c") auto

lemma Atoi_byte: "fst (Atoi (string_of_byte c)) = (case digit_val c of Some d \<Rightarrow> d | None \<Rightarrow> 0)"
proof (cases "(of_char c :: nat) < 128")
  case True
  then have s: "string_of_byte c = [c]" by (simp add: string_of_byte_def)
  show ?thesis
  proof (cases "digit_val c")
    case None
    then show ?thesis by (simp add: s Atoi_def Let_def)
  next
    case (Some d)
    with digit_val_Some [OF Some] show ?thesis by (simp add: s Atoi_def Let_def)
  qed
next
  case False
  define n where "n = (of_char c :: nat)"
  have n: "128 \<le> n" "n < 256" using False by (simp_all add: n_def)
  define c1 where "c1 = (char_of (192 + n div 64) :: char)"
  define c2 where "c2 = (char_of (128 + n mod 64) :: char)"
  have s: "string_of_byte c = [c1, c2]"
    using False by (simp add: string_of_byte_def Let_def c1_def c2_def n_def)
  have "n div 64 < 4" using n by simp
  then have "(of_char c1 :: nat) = 192 + n div 64" by (simp add: c1_def)
  then have "(128::nat) \<le> of_char c1" by simp
  from high_char_no_digit [OF this] have c1: "digit_val c1 = None" "c1 \<noteq> CHR ''-''" "c1 \<noteq> CHR ''+''"
    by simp_all
  have c: "digit_val c = None" using high_char_no_digit [of c] False by simp
  show ?thesis by (simp add: s c c1 Atoi_def Let_def)
qed

lemma parseVersion_digits:
  "parseVersion v = (if len v < 3 then (0, 0, False)
                     else (digit_or_zero (v ! 0), digit_or_zero (v ! 2), True))"
proof -
  have "nat ((case digit_val c of Some d \<Rightarrow> d | None \<Rightarrow> 0) mod 256) = digit_or_zero c" for c
    using digit_val_Some [of c] by (cases "digit_val c") (auto simp: digit_or_zero_def)
  then show ?thesis by (simp add: parseVersion_def Let_def Atoi_byte)
qed

text \<open>
  C5, as the code has it. \<open>parseVersion\<close> fails only on fewer than three version
  bytes; the message then gets version 1.0 and the parser goes on to the headers. With
  three bytes or more it does not fail: major and minor are the values of the first
  and the third byte as decimal digits, and 0 for a byte that is no digit.
\<close>

theorem version_default:
  "\<exists>m'. first_line_done s m version i
          = Continue (s\<lparr>parseOffset := i + 2, parseState := HEADERS\<rparr>) m'
        \<and> version_major m' = (if len version < 3 then 1 else digit_or_zero (version ! 0))
        \<and> version_minor m' = (if len version < 3 then 0 else digit_or_zero (version ! 2))"
  by (simp add: first_line_done_def parseVersion_digits Let_def)

theorem version_default_witness:
  "(\<exists>m'. first_line_done (first_stream []) (new_message 0) ''1'' 13
           = Continue ((first_stream [])\<lparr>parseOffset := 15, parseState := HEADERS\<rparr>) m'
         \<and> version_major m' = 1 \<and> version_minor m' = 0)
   \<and> (case messageParser http_default (first_stream (''GET /xyz HTTP/1'' @ CRLF @ CRLF)) of
        Inl f \<Rightarrow> None
      | Inr (ok, complete, s) \<Rightarrow>
          map_option (\<lambda>m. (ok, complete, version_major m, version_minor m)) (message s))
     = Some (True, True, 1, 0)"
proof
  show "\<exists>m'. first_line_done (first_stream []) (new_message 0) ''1'' 13
           = Continue ((first_stream [])\<lparr>parseOffset := 15, parseState := HEADERS\<rparr>) m'
         \<and> version_major m' = 1 \<and> version_minor m' = 0"
    using version_default [of "first_stream []" "new_message 0" "''1''" 13]
    by (simp add: len_def)
next
  show "(case messageParser http_default (first_stream (''GET /xyz HTTP/1'' @ CRLF @ CRLF)) of
        Inl f \<Rightarrow> None
      | Inr (ok, complete, s) \<Rightarrow>
          map_option (\<lambda>m. (ok, complete, version_major m, version_minor m)) (message s))
     = Some (True, True, 1, 0)"
    by (simp add: model_defs)
qed

text \<open>
  C5 as stated fails: the request line \<open>GET /x HTTP/x.y\<close> gives a complete message of
  version 0.0, not 1.0.
\<close>

theorem version_xy_counterexample:
  "(case messageParser http_default (first_stream (''GET /x HTTP/x.y'' @ CRLF @ CRLF)) of
      Inl f \<Rightarrow> None
    | Inr (ok, complete, s) \<Rightarrow>
        map_option (\<lambda>m. (ok, complete, version_major m, version_minor m)) (message s))
   = Some (True, True, 0, 0)"
  by (simp add: model_defs)

section \<open>A status line of eight bytes\<close>

text \<open>
  C6 fails on a response line of exactly eight bytes: the guard lets it through and
  \<open>fline[9:]\<close> is out of range. \<open>messageParser\<close> panics; \<open>Parse\<close> recovers and returns a
  nil private state.
\<close>

theorem status_line_of_eight_bytes:
  "messageParser http_default (first_stream (''HTTP/1.1'' @ CRLF)) = Inl Panic
   \<and> Parse globals_default http_default (''HTTP/1.1'' @ CRLF) 0 flow TcpDirectionOriginal None
       = Some (http_default, None)"
  by (simp add: model_defs)

section \<open>Framing at the end of the headers\<close>

lemma eoh_slice:
  assumes "2 \<le> len (data s) - parseOffset s" "0 \<le> parseOffset s"
  shows "slice (data s) (parseOffset s) (parseOffset s + 2)
           = Inr (take 2 (drop (nat (parseOffset s)) (data s)))"
  using assms by (simp add: slice_def)

text \<open>
  C8, as the code has it. At the empty line that ends the headers, a response with
  status 1xx, 204 or 304 is complete at once, whatever its Transfer-Encoding. Any other
  message enters chunked framing (\<open>BODY_CHUNKED_START\<close>) exactly when the stored
  Transfer-Encoding equals \<open>chunked\<close> byte for byte; with any other value, \<open>Chunked\<close>
  too, it is complete if \<open>ContentLength\<close> is 0 and it is a request or had a
  Content-Length header, and goes to \<open>BODY\<close> otherwise.
\<close>

theorem end_of_headers_framing:
  assumes "2 \<le> len (data s) - parseOffset s" "0 \<le> parseOffset s"
    and "take 2 (drop (nat (parseOffset s)) (data s)) = CRLF"
  shows "state_headers http s m =
     Inr (if \<not> IsRequest m \<and> no_body_status (StatusCode m)
            then Return True True (s\<lparr>parseOffset := parseOffset s + 2\<rparr>)
                   (m\<lparr>bodyOffset := parseOffset s + 2, m_end := parseOffset s + 2\<rparr>)
          else if TransferEncoding m = ''chunked''
            then Continue (s\<lparr>parseOffset := parseOffset s + 2, parseState := BODY_CHUNKED_START\<rparr>)
                   (m\<lparr>bodyOffset := parseOffset s + 2\<rparr>)
          else if ContentLength m = 0 \<and> (IsRequest m \<or> hasContentLength m)
            then Return True True (s\<lparr>parseOffset := parseOffset s + 2\<rparr>)
                   (m\<lparr>bodyOffset := parseOffset s + 2, m_end := parseOffset s + 2\<rparr>)
          else Continue (s\<lparr>parseOffset := parseOffset s + 2, parseState := BODY\<rparr>)
                 (m\<lparr>bodyOffset := parseOffset s + 2\<rparr>))"
  using assms eoh_slice [OF assms(1,2)]
  by (simp add: state_headers_def bind_def Let_def no_body_status_def)

theorem end_of_headers_framing_witness:
  "state_headers http_default eoh_stream Chunked_message
     = Inr (Continue (eoh_stream\<lparr>parseOffset := 2, parseState := BODY\<rparr>)
              (Chunked_message\<lparr>bodyOffset := 2\<rparr>))"
  using end_of_headers_framing [where s = eoh_stream and m = Chunked_message and http = http_default]
  by (simp add: eoh_stream_def first_stream_def Chunked_message_def new_message_def len_def
      CRLF_def)

text \<open>
  C8 as stated fails: a 204 response with \<open>Transfer-Encoding: chunked\<close> is complete at
  the end of its headers; chunked framing is not entered.
\<close>

theorem no_body_response_counterexample:
  "(case messageParser http_default
           (first_stream (''HTTP/1.1 204 No Content'' @ CRLF
                          @ ''Transfer-Encoding: chunked'' @ CRLF @ CRLF)) of
      Inl f \<Rightarrow> None
    | Inr (ok, complete, s) \<Rightarrow>
        map_option (\<lambda>m. (ok, complete, parseState s, TransferEncoding m)) (message s))
   = Some (True, True, HEADERS, ''chunked'')"
  by (simp add: model_defs)

end
